theory Spec2Isabelle
  imports Main
begin

section \<open>Vault Model simulation layer of the balancer-sdk\<close>

text \<open>
  A shallow embedding of \<^verbatim>\<open>vaultModel.module.ts\<close> (class \<^verbatim>\<open>VaultModel\<close>) and of
  the \<^verbatim>\<open>StablePhantomPoolExit\<close> concern. The classes \<^verbatim>\<open>PoolsSource\<close>,
  \<^verbatim>\<open>RelayerModel\<close> and \<^verbatim>\<open>PoolModel\<close> are imported by the module and defined in
  other modules; the pools source, the ledger and a reference executor are modelled from
  the design document and are marked as such, and \<^verbatim>\<open>multicall\<close> itself takes the
  executor as a parameter.
\<close>

subsection \<open>Errors\<close>

text \<open>
  Every \<^verbatim>\<open>throw\<close> and every rejected promise is a value \<open>Inl e\<close>. The first six
  kinds are the ones the design document names; \<open>TypeError\<close> is JavaScript's own error
  for reading a property of \<^verbatim>\<open>undefined\<close> or calling a non-function,
  \<open>InvalidBigNumber\<close> is what \<^verbatim>\<open>BigNumber.add\<close> throws on an argument that is no
  number, and \<open>Error msg\<close> is \<^verbatim>\<open>new Error(msg)\<close>.
\<close>

datatype error =
    DataSourceError
  | PoolNotFoundError
  | UnresolvedReferenceError
  | DuplicateReferenceError
  | IndexOutOfRangeError
  | UnsupportedActionError
  | TypeError
  | InvalidBigNumber
  | Error string

subsection \<open>\<^verbatim>\<open>StablePhantomPoolExit\<close>\<close>

text \<open>
  The three build methods take one object each, destructured in the parameter list. The
  types of the pool and of the attributes they would return are declared in
  \<^verbatim>\<open>../types\<close> and stay type variables; \<^verbatim>\<open>singleTokenOut\<close> is optional.
\<close>

record 'p ExitExactBPTInParameters =
  exiter :: string
  pool :: 'p
  bptIn :: string
  slippage :: string
  shouldUnwrapNativeAsset :: bool
  wrappedNativeAsset :: string
  singleTokenOut :: "string option"

record 'p ExitExactTokensOutParameters =
  exiter :: string
  pool :: 'p
  tokensOut :: "string list"
  amountsOut :: "string list"
  slippage :: string
  wrappedNativeAsset :: string

text \<open>\<^verbatim>\<open>Pick<ExitExactBPTInParameters, 'exiter' | 'pool' | 'bptIn' | 'slippage'>\<close>\<close>

record 'p RecoveryExitParameters =
  exiter :: string
  pool :: 'p
  bptIn :: string
  slippage :: string

definition buildExitExactBPTIn :: "'p ExitExactBPTInParameters \<Rightarrow> error + 'a" where
  "buildExitExactBPTIn params = Inl (Error ''Exit type not supported'')"

definition buildExitExactTokensOut :: "'p ExitExactTokensOutParameters \<Rightarrow> error + 'a" where
  "buildExitExactTokensOut params = Inl (Error ''Exit type not supported'')"

definition buildRecoveryExit :: "'p RecoveryExitParameters \<Rightarrow> error + 'a" where
  "buildRecoveryExit params = Inl (Error ''Exit type not supported'')"

subsection \<open>Call descriptors of the encoding layer\<close>

text \<open>
  \<^verbatim>\<open>Swap\<close>, \<^verbatim>\<open>EncodeBatchSwapInput\<close>, \<^verbatim>\<open>EncodeJoinPoolInput\<close> and
  \<^verbatim>\<open>EncodeExitPoolInput\<close> are declared in \<^verbatim>\<open>../swaps/types\<close> and
  \<^verbatim>\<open>../relayer/types\<close>. The records have the fields the mapping helpers read; any
  further field of a descriptor is in the extension part of the record.
\<close>

text \<open>
  The types of the fields are modelled by what the design document lists: an amount is
  either a literal or an output reference still to be resolved, a single swap names its
  pool, its two assets and its amount, a batch swap step names its pool and indexes the
  asset list, an output reference is a numeric key.
\<close>

datatype amount = Literal nat | ChainedRef nat

datatype SwapType = SwapExactIn | SwapExactOut

record FundManagement =
  sender :: string
  recipient :: string

record SingleSwap =
  poolId :: string
  kind :: SwapType
  assetIn :: string
  assetOut :: string
  amount :: amount

record BatchSwapStep =
  poolId :: string
  assetInIndex :: nat
  assetOutIndex :: nat
  amount :: amount

record Swap =
  request :: SingleSwap
  funds :: FundManagement
  outputReference :: nat

record EncodeBatchSwapInput =
  swaps :: "BatchSwapStep list"
  assets :: "string list"
  funds :: FundManagement
  swapType :: SwapType
  outputReferences :: "nat list"

record PoolRequestData =
  userData :: string

record EncodeJoinPoolInput =
  poolId :: string
  joinPoolRequest :: PoolRequestData
  outputReference :: nat

record EncodeExitPoolInput =
  poolId :: string
  exitPoolRequest :: PoolRequestData
  outputReferences :: "nat list"

subsection \<open>Request shapes\<close>

text \<open>
  \<^verbatim>\<open>export enum ActionType { BatchSwap, Join, Exit, Swap }\<close> is a numeric enum: at run
  time the tag of a request is a number, and the members are the numbers 0 to 3. The tag
  is kept as a number so that a request whose tag is none of the four can be written down.
\<close>

type_synonym ActionType = int

definition ActionType_BatchSwap :: ActionType where "ActionType_BatchSwap = 0"
definition ActionType_Join :: ActionType where "ActionType_Join = 1"
definition ActionType_Exit :: ActionType where "ActionType_Exit = 2"
definition ActionType_Swap :: ActionType where "ActionType_Swap = 3"

record JoinPoolRequest =
  actionType :: ActionType
  poolId :: string
  encodedUserData :: string
  outputReference :: nat

record ExitPoolRequest =
  actionType :: ActionType
  poolId :: string
  encodedUserData :: string
  outputReferences :: "nat list"

record SwapRequest =
  actionType :: ActionType
  request :: SingleSwap
  funds :: FundManagement
  outputReference :: nat

record BatchSwapRequest =
  actionType :: ActionType
  swaps :: "BatchSwapStep list"
  assets :: "string list"
  funds :: FundManagement
  swapType :: SwapType
  outputReferences :: "nat list"

text \<open>
  \<^verbatim>\<open>type Requests = BatchSwapRequest | JoinPoolRequest | ExitPoolRequest | SwapRequest\<close>.
  The constructor is the shape of the object (which fields it has); the tag is a field of
  every shape.
\<close>

datatype Requests =
    BatchSwapReq BatchSwapRequest
  | JoinReq JoinPoolRequest
  | ExitReq ExitPoolRequest
  | SwapReq SwapRequest

text \<open>\<^verbatim>\<open>call.actionType\<close>\<close>

fun call_actionType :: "Requests \<Rightarrow> ActionType" where
  "call_actionType (BatchSwapReq r) = BatchSwapRequest.actionType r"
| "call_actionType (JoinReq r) = JoinPoolRequest.actionType r"
| "call_actionType (ExitReq r) = ExitPoolRequest.actionType r"
| "call_actionType (SwapReq r) = SwapRequest.actionType r"

text \<open>\<^verbatim>\<open>call.assets\<close>: \<^verbatim>\<open>undefined\<close> (\<open>None\<close>) on an object that has no such field.\<close>

fun call_assets :: "Requests \<Rightarrow> string list option" where
  "call_assets (BatchSwapReq r) = Some (assets r)"
| "call_assets _ = None"

text \<open>\<^verbatim>\<open>call.request\<close>\<close>

fun call_request :: "Requests \<Rightarrow> SingleSwap option" where
  "call_request (SwapReq r) = Some (request r)"
| "call_request _ = None"

subsection \<open>The static mapping helpers\<close>

definition mapSwapRequest :: "'a Swap_scheme \<Rightarrow> SwapRequest" where
  "mapSwapRequest call =
     \<lparr>SwapRequest.actionType = ActionType_Swap,
      SwapRequest.request = Swap.request call,
      SwapRequest.funds = Swap.funds call,
      SwapRequest.outputReference = Swap.outputReference call\<rparr>"

definition mapBatchSwapRequest :: "'a EncodeBatchSwapInput_scheme \<Rightarrow> BatchSwapRequest" where
  "mapBatchSwapRequest call =
     \<lparr>BatchSwapRequest.actionType = ActionType_BatchSwap,
      BatchSwapRequest.swaps = EncodeBatchSwapInput.swaps call,
      BatchSwapRequest.assets = EncodeBatchSwapInput.assets call,
      BatchSwapRequest.funds = EncodeBatchSwapInput.funds call,
      BatchSwapRequest.swapType = EncodeBatchSwapInput.swapType call,
      BatchSwapRequest.outputReferences = EncodeBatchSwapInput.outputReferences call\<rparr>"

definition mapJoinPoolRequest :: "'a EncodeJoinPoolInput_scheme \<Rightarrow> JoinPoolRequest" where
  "mapJoinPoolRequest call =
     \<lparr>JoinPoolRequest.actionType = ActionType_Join,
      JoinPoolRequest.poolId = EncodeJoinPoolInput.poolId call,
      JoinPoolRequest.encodedUserData = userData (joinPoolRequest call),
      JoinPoolRequest.outputReference = EncodeJoinPoolInput.outputReference call\<rparr>"

definition mapExitPoolRequest :: "'a EncodeExitPoolInput_scheme \<Rightarrow> ExitPoolRequest" where
  "mapExitPoolRequest call =
     \<lparr>ExitPoolRequest.actionType = ActionType_Exit,
      ExitPoolRequest.poolId = EncodeExitPoolInput.poolId call,
      ExitPoolRequest.encodedUserData = userData (exitPoolRequest call),
      ExitPoolRequest.outputReferences = EncodeExitPoolInput.outputReferences call\<rparr>"

subsection \<open>The delta map and \<^verbatim>\<open>updateDeltas\<close>\<close>

text \<open>
  \<^verbatim>\<open>Record<string, BigNumber>\<close>: a map from token address to an integer of unbounded
  size. An element of \<^verbatim>\<open>amounts: string[]\<close> is \<open>Some n\<close> when the string is the
  rendering of the integer \<open>n\<close> and \<open>None\<close> when \<^verbatim>\<open>BigNumber.from\<close> rejects it;
  \<^verbatim>\<open>amounts[i]\<close> beyond the end of the array is \<^verbatim>\<open>undefined\<close>, which
  \<^verbatim>\<open>BigNumber.from\<close> rejects as well.
\<close>

type_synonym Deltas = "string \<rightharpoonup> int"

definition Zero :: int where "Zero = 0"

definition amount_at :: "int option list \<Rightarrow> nat \<Rightarrow> int option" where
  "amount_at amounts i = (if i < length amounts then amounts ! i else None)"

text \<open>
  The map is created by the literal \<^verbatim>\<open>{}\<close>, so \<^verbatim>\<open>deltas[t]\<close> for one of the names
  below finds the property inherited from \<^verbatim>\<open>Object.prototype\<close>: the test
  \<^verbatim>\<open>!deltas[t]\<close> is false and \<^verbatim>\<open>deltas[t].add\<close> is not a function.
\<close>

definition Object_prototype_keys :: "string list" where
  "Object_prototype_keys =
     [''constructor'', ''hasOwnProperty'', ''isPrototypeOf'', ''propertyIsEnumerable'',
      ''toLocaleString'', ''toString'', ''valueOf'', ''__proto__'',
      ''__defineGetter__'', ''__defineSetter__'', ''__lookupGetter__'', ''__lookupSetter__'']"

text \<open>
  One round of the \<^verbatim>\<open>forEach\<close> callback:
  \<^verbatim>\<open>if (!deltas[t]) deltas[t] = Zero; deltas[t] = deltas[t].add(amounts[i]);\<close>
  A \<^verbatim>\<open>BigNumber\<close> is an object and so always truthy: the test holds exactly when the
  key is absent.
\<close>

definition updateDelta :: "Deltas \<Rightarrow> string \<Rightarrow> int option \<Rightarrow> error + Deltas" where
  "updateDelta deltas t a =
     (if t \<in> set Object_prototype_keys then Inl TypeError
      else
        (let cur = (case deltas t of None \<Rightarrow> Zero | Some v \<Rightarrow> v)
         in case a of
              None \<Rightarrow> Inl InvalidBigNumber
            | Some n \<Rightarrow> Inr (deltas(t \<mapsto> cur + n))))"

text \<open>\<^verbatim>\<open>assets.forEach((t, i) => ...)\<close>, from index \<open>i\<close> on.\<close>

fun forEach_from :: "nat \<Rightarrow> Deltas \<Rightarrow> string list \<Rightarrow> int option list \<Rightarrow> error + Deltas" where
  "forEach_from i deltas [] amounts = Inr deltas"
| "forEach_from i deltas (t # ts) amounts =
     (case updateDelta deltas t (amount_at amounts i) of
        Inl e \<Rightarrow> Inl e
      | Inr deltas' \<Rightarrow> forEach_from (Suc i) deltas' ts amounts)"

definition updateDeltas :: "Deltas \<Rightarrow> string list \<Rightarrow> int option list \<Rightarrow> error + Deltas" where
  "updateDeltas deltas tokens amounts = forEach_from 0 deltas tokens amounts"

subsection \<open>Pools and the pools source\<close>

text \<open>
  Modelled from the spec: the \<^verbatim>\<open>Pool\<close> entity, declared in another module. It is
  identified by its id, has the address of its share token (BPT), an ordered list of
  constituent tokens and a pool type tag.
\<close>

record Pool =
  pool_id :: string
  address :: string
  tokensList :: "string list"
  poolType :: string

type_synonym PoolDictionary = "string \<rightharpoonup> Pool"

text \<open>
  Modelled from the spec: the class \<^verbatim>\<open>PoolsSource\<close> (Pool State Source), which is missing
  from the sources. It holds the external data provider and the cached dictionary. The provider
  is a function of the number of fetches issued so far, so that its answers may change
  from one fetch to the next; \<open>None\<close> is an unreachable provider or malformed data.
  \<open>fetches\<close> counts the fetches issued to the provider and \<open>lookups\<close> the calls of
  \<^verbatim>\<open>poolsDictionary\<close>; both are bookkeeping that no operation reads.
\<close>

record PoolsSource =
  poolDataService :: "nat \<Rightarrow> Pool list option"
  wrappedNativeAsset :: string
  cache :: "PoolDictionary option"
  fetches :: nat
  lookups :: nat

definition PoolsSource_new :: "(nat \<Rightarrow> Pool list option) \<Rightarrow> string \<Rightarrow> PoolsSource" where
  "PoolsSource_new service wrapped =
     \<lparr>poolDataService = service, wrappedNativeAsset = wrapped, cache = None,
      fetches = 0, lookups = 0\<rparr>"

definition buildDictionary :: "Pool list \<Rightarrow> PoolDictionary" where
  "buildDictionary ps = fold (\<lambda>p d. d(pool_id p \<mapsto> p)) ps Map.empty"

text \<open>
  Modelled from the spec: \<^verbatim>\<open>poolsDictionary(refresh)\<close>. With \<open>refresh\<close> false and a
  dictionary already built, the cached dictionary is returned. Otherwise the pools are
  fetched again and the dictionary is rebuilt and replaces the cache; when the fetch
  fails the call fails with \<open>DataSourceError\<close> and no dictionary is installed.
\<close>

definition poolsDictionary :: "PoolsSource \<Rightarrow> bool \<Rightarrow> (error + PoolDictionary) \<times> PoolsSource" where
  "poolsDictionary src refresh =
     (let src1 = src\<lparr>lookups := Suc (lookups src)\<rparr>
      in case (refresh, cache src1) of
           (False, Some d) \<Rightarrow> (Inr d, src1)
         | _ \<Rightarrow>
             (let src2 = src1\<lparr>fetches := Suc (fetches src1)\<rparr>
              in case poolDataService src (fetches src) of
                   None \<Rightarrow> (Inl DataSourceError, src2)
                 | Some ps \<Rightarrow>
                     (let d = buildDictionary ps
                      in (Inr d, src2\<lparr>cache := Some d\<rparr>))))"

subsection \<open>The relayer ledger\<close>

text \<open>
  Modelled from the spec: the class \<^verbatim>\<open>RelayerModel\<close> (Relayer Ledger), which is missing
  from the sources: a keyed store of the values written under output references. A read of an
  unset reference fails with \<open>UnresolvedReferenceError\<close>; a write to a reference that
  is already set fails with \<open>DuplicateReferenceError\<close>.
\<close>

type_synonym RelayerModel = "nat \<rightharpoonup> int"

definition RelayerModel_new :: RelayerModel where
  "RelayerModel_new = Map.empty"

definition RelayerModel_read :: "RelayerModel \<Rightarrow> nat \<Rightarrow> error + int" where
  "RelayerModel_read rl r =
     (case rl r of None \<Rightarrow> Inl UnresolvedReferenceError | Some v \<Rightarrow> Inr v)"

definition RelayerModel_write :: "RelayerModel \<Rightarrow> nat \<Rightarrow> int \<Rightarrow> error + RelayerModel" where
  "RelayerModel_write rl r v =
     (case rl r of None \<Rightarrow> Inr (rl(r \<mapsto> v)) | Some _ \<Rightarrow> Inl DuplicateReferenceError)"

subsection \<open>The executor as \<^verbatim>\<open>multicall\<close> sees it\<close>

text \<open>
  \<^verbatim>\<open>new PoolModel(relayerModel)\<close>: the class is imported from
  \<^verbatim>\<open>./poolModel/poolModel\<close>. \<^verbatim>\<open>multicall\<close> uses four of its operations. Each takes
  the request and the pool dictionary, may fail, and reads and writes the ledger it was
  built with: the ledger is passed in and returned. \<^verbatim>\<open>doJoin\<close> and \<^verbatim>\<open>doExit\<close>
  return the pair \<^verbatim>\<open>[tokens, amounts]\<close>, the two swaps return amounts only.
\<close>

type_synonym 'a executor_op =
  "RelayerModel \<Rightarrow> Requests \<Rightarrow> PoolDictionary \<Rightarrow> error + ('a \<times> RelayerModel)"

record PoolModel =
  doJoin :: "(string list \<times> int option list) executor_op"
  doExit :: "(string list \<times> int option list) executor_op"
  doBatchSwap :: "(int option list) executor_op"
  doSingleSwap :: "(int option list) executor_op"

subsection \<open>The pool operation executor\<close>

text \<open>
  Modelled from the spec: the Pool Math Provider, an external capability. Given the pool
  (which carries its type tag) it produces the numeric outcome of an operation as
  unsigned amounts, or fails: for a join the amount consumed of each constituent token
  and the pool shares minted, for an exit the pool shares burned and the amount released
  of each constituent token, for a swap the amount paid in and the amount received.
\<close>

record PoolMath =
  joinMath :: "Pool \<Rightarrow> string \<Rightarrow> error + (nat list \<times> nat)"
  exitMath :: "Pool \<Rightarrow> string \<Rightarrow> error + (nat \<times> nat list)"
  swapMath :: "Pool \<Rightarrow> SwapType \<Rightarrow> string \<Rightarrow> string \<Rightarrow> int \<Rightarrow> error + (nat \<times> nat)"

text \<open>
  Modelled from the spec: an amount that is an output reference is resolved from the
  ledger before it is used.
\<close>

definition resolve :: "RelayerModel \<Rightarrow> amount \<Rightarrow> error + int" where
  "resolve rl a =
     (case a of Literal n \<Rightarrow> Inr (int n) | ChainedRef r \<Rightarrow> RelayerModel_read rl r)"

fun write_all :: "RelayerModel \<Rightarrow> (nat \<times> int) list \<Rightarrow> error + RelayerModel" where
  "write_all rl [] = Inr rl"
| "write_all rl ((r, v) # rest) =
     (case RelayerModel_write rl r v of
        Inl e \<Rightarrow> Inl e
      | Inr rl' \<Rightarrow> write_all rl' rest)"

text \<open>
  Modelled from the spec: the four operations of the class \<^verbatim>\<open>PoolModel\<close> (Pool
  Operation Executor), which is missing from the sources. Amounts are signed from the
  user's side, as the design document fixes for the delta map: what the user receives is
  positive, what the user pays is negative. An operation handed a request of another
  shape fails at once.

  \<^verbatim>\<open>doJoin\<close> looks the pool up, asks the math provider, records the pool shares
  minted under the output reference and returns the constituent tokens with the amounts
  paid and the share token with the amount minted.
\<close>

definition PoolModel_doJoin :: "PoolMath \<Rightarrow> (string list \<times> int option list) executor_op" where
  "PoolModel_doJoin math rl call pools =
     (case call of
        JoinReq jr \<Rightarrow>
          (case pools (JoinPoolRequest.poolId jr) of
             None \<Rightarrow> Inl PoolNotFoundError
           | Some p \<Rightarrow>
               (case joinMath math p (JoinPoolRequest.encodedUserData jr) of
                  Inl e \<Rightarrow> Inl e
                | Inr (amountsIn, bptOut) \<Rightarrow>
                    (case RelayerModel_write rl (JoinPoolRequest.outputReference jr) (int bptOut) of
                       Inl e \<Rightarrow> Inl e
                     | Inr rl' \<Rightarrow>
                         Inr ((tokensList p @ [address p],
                               map (\<lambda>a. Some (- int a)) amountsIn @ [Some (int bptOut)]), rl'))))
      | _ \<Rightarrow> Inl UnsupportedActionError)"

text \<open>
  Modelled from the spec: \<^verbatim>\<open>doExit\<close>, symmetric to the join; the amount released of
  the i-th constituent token is recorded under the i-th output reference.
\<close>

definition PoolModel_doExit :: "PoolMath \<Rightarrow> (string list \<times> int option list) executor_op" where
  "PoolModel_doExit math rl call pools =
     (case call of
        ExitReq er \<Rightarrow>
          (case pools (ExitPoolRequest.poolId er) of
             None \<Rightarrow> Inl PoolNotFoundError
           | Some p \<Rightarrow>
               (case exitMath math p (ExitPoolRequest.encodedUserData er) of
                  Inl e \<Rightarrow> Inl e
                | Inr (bptBurned, released) \<Rightarrow>
                    (case write_all rl (zip (ExitPoolRequest.outputReferences er) (map int released)) of
                       Inl e \<Rightarrow> Inl e
                     | Inr rl' \<Rightarrow>
                         Inr ((address p # tokensList p,
                               Some (- int bptBurned) # map (\<lambda>a. Some (int a)) released), rl'))))
      | _ \<Rightarrow> Inl UnsupportedActionError)"

text \<open>
  Modelled from the spec: \<^verbatim>\<open>doSingleSwap\<close> resolves the pool, resolves the amount,
  asks the math provider, records the amount received under the output reference and
  returns two amounts, the one for \<^verbatim>\<open>assetOut\<close> first.
\<close>

definition PoolModel_doSingleSwap :: "PoolMath \<Rightarrow> (int option list) executor_op" where
  "PoolModel_doSingleSwap math rl call pools =
     (case call of
        SwapReq sr \<Rightarrow>
          (let rq = SwapRequest.request sr
           in case pools (SingleSwap.poolId rq) of
                None \<Rightarrow> Inl PoolNotFoundError
              | Some p \<Rightarrow>
                  (case resolve rl (SingleSwap.amount rq) of
                     Inl e \<Rightarrow> Inl e
                   | Inr amt \<Rightarrow>
                       (case swapMath math p (kind rq) (assetIn rq) (assetOut rq) amt of
                          Inl e \<Rightarrow> Inl e
                        | Inr (paid, received) \<Rightarrow>
                            (case RelayerModel_write rl (SwapRequest.outputReference sr) (int received) of
                               Inl e \<Rightarrow> Inl e
                             | Inr rl' \<Rightarrow>
                                 Inr ([Some (int received), Some (- int paid)], rl')))))
      | _ \<Rightarrow> Inl UnsupportedActionError)"

text \<open>
  Modelled from the spec: one step of a batch swap, on the per-asset amounts accumulated
  so far. An asset index outside the asset list fails with \<open>IndexOutOfRangeError\<close>; a
  step with the literal amount zero contributes nothing; otherwise the pool is resolved,
  the amount is resolved from the ledger, and the outcome is subtracted from the asset
  paid and added to the asset received.
\<close>

definition batchSwapStep ::
  "PoolMath \<Rightarrow> PoolDictionary \<Rightarrow> string list \<Rightarrow> SwapType \<Rightarrow> RelayerModel
     \<Rightarrow> int list \<Rightarrow> BatchSwapStep \<Rightarrow> error + int list" where
  "batchSwapStep math pools tokens ty rl acc s =
     (let i = assetInIndex s; j = assetOutIndex s
      in if length tokens \<le> i \<or> length tokens \<le> j then Inl IndexOutOfRangeError
         else if BatchSwapStep.amount s = Literal 0 then Inr acc
         else
           (case pools (BatchSwapStep.poolId s) of
              None \<Rightarrow> Inl PoolNotFoundError
            | Some p \<Rightarrow>
                (case resolve rl (BatchSwapStep.amount s) of
                   Inl e \<Rightarrow> Inl e
                 | Inr amt \<Rightarrow>
                     (case swapMath math p ty (tokens ! i) (tokens ! j) amt of
                        Inl e \<Rightarrow> Inl e
                      | Inr (paid, received) \<Rightarrow>
                          (let acc1 = acc[i := acc ! i - int paid]
                           in Inr (acc1[j := acc1 ! j + int received]))))))"

fun batchSwapSteps ::
  "PoolMath \<Rightarrow> PoolDictionary \<Rightarrow> string list \<Rightarrow> SwapType \<Rightarrow> RelayerModel
     \<Rightarrow> int list \<Rightarrow> BatchSwapStep list \<Rightarrow> error + int list" where
  "batchSwapSteps math pools tokens ty rl acc [] = Inr acc"
| "batchSwapSteps math pools tokens ty rl acc (s # ss) =
     (case batchSwapStep math pools tokens ty rl acc s of
        Inl e \<Rightarrow> Inl e
      | Inr acc' \<Rightarrow> batchSwapSteps math pools tokens ty rl acc' ss)"

text \<open>
  Modelled from the spec: \<^verbatim>\<open>doBatchSwap\<close> runs the steps in order from zero for
  every asset of the request, records the final amount of the i-th asset under the i-th
  output reference and returns one amount per asset.
\<close>

definition PoolModel_doBatchSwap :: "PoolMath \<Rightarrow> (int option list) executor_op" where
  "PoolModel_doBatchSwap math rl call pools =
     (case call of
        BatchSwapReq br \<Rightarrow>
          (case batchSwapSteps math pools (assets br) (swapType br) rl
                  (replicate (length (assets br)) 0) (swaps br) of
             Inl e \<Rightarrow> Inl e
           | Inr acc \<Rightarrow>
               (case write_all rl (zip (BatchSwapRequest.outputReferences br) acc) of
                  Inl e \<Rightarrow> Inl e
                | Inr rl' \<Rightarrow> Inr (map Some acc, rl')))
      | _ \<Rightarrow> Inl UnsupportedActionError)"

definition PoolModel_new :: "PoolMath \<Rightarrow> PoolModel" where
  "PoolModel_new math =
     \<lparr>doJoin = PoolModel_doJoin math, doExit = PoolModel_doExit math,
      doBatchSwap = PoolModel_doBatchSwap math, doSingleSwap = PoolModel_doSingleSwap math\<rparr>"

subsection \<open>\<^verbatim>\<open>VaultModel\<close>\<close>

record VaultModel =
  poolsSource :: PoolsSource

definition VaultModel_new :: "(nat \<Rightarrow> Pool list option) \<Rightarrow> string \<Rightarrow> VaultModel" where
  "VaultModel_new service wrapped = \<lparr>poolsSource = PoolsSource_new service wrapped\<rparr>"

text \<open>
  The body of \<^verbatim>\<open>for (const call of rawCalls)\<close>: the state is the ledger of the
  executor and the delta map. An \<^verbatim>\<open>await\<close> that rejects leaves the function at once.
  In the third branch \<^verbatim>\<open>call.assets\<close> and in the last branch \<^verbatim>\<open>call.request\<close> are
  read after the executor has returned; on an object without that field the read of
  \<^verbatim>\<open>assets.forEach\<close>, respectively of \<^verbatim>\<open>call.request.assetOut\<close>, is a
  \<open>TypeError\<close>.
\<close>

definition multicall_step ::
  "PoolModel \<Rightarrow> PoolDictionary \<Rightarrow> RelayerModel \<times> Deltas \<Rightarrow> Requests
     \<Rightarrow> error + (RelayerModel \<times> Deltas)" where
  "multicall_step poolModel pools st call =
     (let (rl, deltas) = st
      in if call_actionType call = ActionType_Join then
           (case doJoin poolModel rl call pools of
              Inl e \<Rightarrow> Inl e
            | Inr ((tokens, amounts), rl') \<Rightarrow>
                (case updateDeltas deltas tokens amounts of
                   Inl e \<Rightarrow> Inl e
                 | Inr deltas' \<Rightarrow> Inr (rl', deltas')))
         else if call_actionType call = ActionType_Exit then
           (case doExit poolModel rl call pools of
              Inl e \<Rightarrow> Inl e
            | Inr ((tokens, amounts), rl') \<Rightarrow>
                (case updateDeltas deltas tokens amounts of
                   Inl e \<Rightarrow> Inl e
                 | Inr deltas' \<Rightarrow> Inr (rl', deltas')))
         else if call_actionType call = ActionType_BatchSwap then
           (case doBatchSwap poolModel rl call pools of
              Inl e \<Rightarrow> Inl e
            | Inr (swapDeltas, rl') \<Rightarrow>
                (case call_assets call of
                   None \<Rightarrow> Inl TypeError
                 | Some tokens \<Rightarrow>
                     (case updateDeltas deltas tokens swapDeltas of
                        Inl e \<Rightarrow> Inl e
                      | Inr deltas' \<Rightarrow> Inr (rl', deltas'))))
         else
           (case doSingleSwap poolModel rl call pools of
              Inl e \<Rightarrow> Inl e
            | Inr (swapDeltas, rl') \<Rightarrow>
                (case call_request call of
                   None \<Rightarrow> Inl TypeError
                 | Some rq \<Rightarrow>
                     (case updateDeltas deltas [assetOut rq, assetIn rq] swapDeltas of
                        Inl e \<Rightarrow> Inl e
                      | Inr deltas' \<Rightarrow> Inr (rl', deltas')))))"

fun multicall_loop ::
  "PoolModel \<Rightarrow> PoolDictionary \<Rightarrow> RelayerModel \<times> Deltas \<Rightarrow> Requests list
     \<Rightarrow> error + (RelayerModel \<times> Deltas)" where
  "multicall_loop poolModel pools st [] = Inr st"
| "multicall_loop poolModel pools st (call # rawCalls) =
     (case multicall_step poolModel pools st call of
        Inl e \<Rightarrow> Inl e
      | Inr st' \<Rightarrow> multicall_loop poolModel pools st' rawCalls)"

text \<open>
  \<^verbatim>\<open>async multicall(rawCalls, refresh = false)\<close>. The second argument is \<open>None\<close>
  when the caller leaves it out. The result is the settled promise together with the
  instance after the call; the ledger and the delta map are locals of the call.
\<close>

definition refresh_default :: "bool option \<Rightarrow> bool" where
  "refresh_default refresh_arg = (case refresh_arg of None \<Rightarrow> False | Some b \<Rightarrow> b)"

definition multicall ::
  "PoolModel \<Rightarrow> VaultModel \<Rightarrow> Requests list \<Rightarrow> bool option
     \<Rightarrow> (error + Deltas) \<times> VaultModel" where
  "multicall poolModel vm rawCalls refresh_arg =
     (let refresh = refresh_default refresh_arg;
          relayerModel = RelayerModel_new;
          (res, src) = poolsDictionary (poolsSource vm) refresh;
          vm' = vm\<lparr>poolsSource := src\<rparr>
      in case res of
           Inl e \<Rightarrow> (Inl e, vm')
         | Inr pools \<Rightarrow>
             (case multicall_loop poolModel pools (relayerModel, Map.empty) rawCalls of
                Inl e \<Rightarrow> (Inl e, vm')
              | Inr (rl, deltas) \<Rightarrow> (Inr deltas, vm')))"

subsection \<open>What a step contributes\<close>

text \<open>
  The pair \<^verbatim>\<open>(tokens, amounts)\<close> that a step of \<^verbatim>\<open>multicall\<close> hands to
  \<^verbatim>\<open>updateDeltas\<close>, with the ledger after the step: the result of the executor and,
  for the two swaps, the token list that \<^verbatim>\<open>multicall\<close> reads off the request.
\<close>

definition step_result ::
  "PoolModel \<Rightarrow> PoolDictionary \<Rightarrow> RelayerModel \<Rightarrow> Requests
     \<Rightarrow> error + ((string list \<times> int option list) \<times> RelayerModel)" where
  "step_result poolModel pools rl call =
     (if call_actionType call = ActionType_Join then doJoin poolModel rl call pools
      else if call_actionType call = ActionType_Exit then doExit poolModel rl call pools
      else if call_actionType call = ActionType_BatchSwap then
        (case doBatchSwap poolModel rl call pools of
           Inl e \<Rightarrow> Inl e
         | Inr (swapDeltas, rl') \<Rightarrow>
             (case call_assets call of
                None \<Rightarrow> Inl TypeError
              | Some tokens \<Rightarrow> Inr ((tokens, swapDeltas), rl')))
      else
        (case doSingleSwap poolModel rl call pools of
           Inl e \<Rightarrow> Inl e
         | Inr (swapDeltas, rl') \<Rightarrow>
             (case call_request call of
                None \<Rightarrow> Inl TypeError
              | Some rq \<Rightarrow> Inr (([assetOut rq, assetIn rq], swapDeltas), rl'))))"

text \<open>The results of the steps of a batch, in order, up to the first step that fails.\<close>

fun step_results ::
  "PoolModel \<Rightarrow> PoolDictionary \<Rightarrow> RelayerModel \<Rightarrow> Requests list
     \<Rightarrow> (string list \<times> int option list) list" where
  "step_results poolModel pools rl [] = []"
| "step_results poolModel pools rl (call # rawCalls) =
     (case step_result poolModel pools rl call of
        Inl e \<Rightarrow> []
      | Inr (res, rl') \<Rightarrow> res # step_results poolModel pools rl' rawCalls)"

definition multicall_results ::
  "PoolModel \<Rightarrow> VaultModel \<Rightarrow> Requests list \<Rightarrow> bool option
     \<Rightarrow> (string list \<times> int option list) list" where
  "multicall_results poolModel vm rawCalls refresh_arg =
     (case fst (poolsDictionary (poolsSource vm) (refresh_default refresh_arg)) of
        Inl e \<Rightarrow> []
      | Inr pools \<Rightarrow> step_results poolModel pools RelayerModel_new rawCalls)"

text \<open>
  The contribution of one step to token \<open>t\<close>: the sum of \<^verbatim>\<open>amounts[i]\<close> over the
  positions \<open>i\<close> with \<^verbatim>\<open>tokens[i] = t\<close>.
\<close>

fun contribution :: "string \<Rightarrow> string list \<Rightarrow> int option list \<Rightarrow> int" where
  "contribution t [] amounts = 0"
| "contribution t (a # tokens) [] = 0"
| "contribution t (a # tokens) (x # amounts) =
     (if a = t then (case x of None \<Rightarrow> 0 | Some n \<Rightarrow> n) else 0) + contribution t tokens amounts"

text \<open>The delta of a token, an absent token counting as zero.\<close>

definition delta_of :: "Deltas \<Rightarrow> string \<Rightarrow> int" where
  "delta_of deltas t = (case deltas t of None \<Rightarrow> 0 | Some v \<Rightarrow> v)"

subsection \<open>Producers and consumers of output references\<close>

text \<open>
  The ledger at the end of a batch whose requests are all processed. \<^verbatim>\<open>multicall\<close>
  drops the ledger when it returns; the function serves to say which step writes a
  reference.
\<close>

definition multicall_ledger ::
  "PoolModel \<Rightarrow> VaultModel \<Rightarrow> Requests list \<Rightarrow> bool option \<Rightarrow> RelayerModel option" where
  "multicall_ledger poolModel vm rawCalls refresh_arg =
     (case fst (poolsDictionary (poolsSource vm) (refresh_default refresh_arg)) of
        Inl e \<Rightarrow> None
      | Inr pools \<Rightarrow>
          (case multicall_loop poolModel pools (RelayerModel_new, Map.empty) rawCalls of
             Inl e \<Rightarrow> None
           | Inr st \<Rightarrow> Some (fst st)))"

text \<open>
  The request \<open>producer\<close>, run after the requests \<open>before\<close>, writes the reference
  \<open>r\<close>: the reference is unset when its turn comes and set when it is done.
\<close>

definition produces ::
  "PoolModel \<Rightarrow> VaultModel \<Rightarrow> Requests list \<Rightarrow> Requests \<Rightarrow> bool option \<Rightarrow> nat \<Rightarrow> bool" where
  "produces poolModel vm before producer refresh_arg r =
     (case (multicall_ledger poolModel vm before refresh_arg,
            multicall_ledger poolModel vm (before @ [producer]) refresh_arg) of
        (Some rl, Some rl') \<Rightarrow> rl r = None \<and> rl' r \<noteq> None
      | _ \<Rightarrow> False)"

text \<open>
  A request reads the reference \<open>r\<close> when it is a swap whose amount is that reference,
  or a batch swap one of whose steps has that reference as its amount.
\<close>

fun reads_ref :: "Requests \<Rightarrow> nat \<Rightarrow> bool" where
  "reads_ref (SwapReq sr) r = (SingleSwap.amount (request sr) = ChainedRef r)"
| "reads_ref (BatchSwapReq br) r = (ChainedRef r \<in> set (map BatchSwapStep.amount (swaps br)))"
| "reads_ref (JoinReq jr) r = False"
| "reads_ref (ExitReq er) r = False"

subsection \<open>A concrete setting\<close>

text \<open>
  Two weighted pools over the tokens A, B and C, a data provider that always answers with
  them, and a math provider with fixed outcomes: a join takes 10 of every constituent
  token for 7 pool shares, an exit gives them back, a swap pays out what is paid in.
\<close>

definition examplePools :: "Pool list" where
  "examplePools =
     [\<lparr>pool_id = ''P1'', address = ''BPT1'', tokensList = [''A'', ''B''], poolType = ''Weighted''\<rparr>,
      \<lparr>pool_id = ''P2'', address = ''BPT2'', tokensList = [''B'', ''C''], poolType = ''Weighted''\<rparr>]"

definition exampleMath :: PoolMath where
  "exampleMath =
     \<lparr>joinMath = (\<lambda>p u. Inr (map (\<lambda>t. 10) (tokensList p), 7)),
      exitMath = (\<lambda>p u. Inr (7, map (\<lambda>t. 10) (tokensList p))),
      swapMath = (\<lambda>p k a b n. if n < 0 then Inl (Error ''negative amount'')
                              else Inr (nat n, nat n))\<rparr>"

definition exampleVault :: VaultModel where
  "exampleVault = VaultModel_new (\<lambda>n. Some examplePools) ''WETH''"

definition exampleFunds :: FundManagement where
  "exampleFunds = \<lparr>sender = ''user'', recipient = ''user''\<rparr>"

definition exampleJoin :: "nat \<Rightarrow> Requests" where
  "exampleJoin r =
     JoinReq \<lparr>JoinPoolRequest.actionType = ActionType_Join, JoinPoolRequest.poolId = ''P1'',
              JoinPoolRequest.encodedUserData = ''0x'', JoinPoolRequest.outputReference = r\<rparr>"

definition exampleSwap :: "ActionType \<Rightarrow> amount \<Rightarrow> nat \<Rightarrow> Requests" where
  "exampleSwap tag a r =
     SwapReq \<lparr>SwapRequest.actionType = tag,
              SwapRequest.request =
                \<lparr>SingleSwap.poolId = ''P1'', kind = SwapExactIn, assetIn = ''A'',
                 assetOut = ''B'', SingleSwap.amount = a\<rparr>,
              SwapRequest.funds = exampleFunds, SwapRequest.outputReference = r\<rparr>"

section \<open>Properties\<close>

subsection \<open>Evaluation\<close>

lemmas example_defs =
  exampleVault_def VaultModel_new_def PoolsSource_new_def examplePools_def exampleMath_def
  exampleFunds_def exampleJoin_def exampleSwap_def

lemmas model_defs =
  multicall_def refresh_default_def poolsDictionary_def buildDictionary_def multicall_step_def
  PoolModel_new_def PoolModel_doJoin_def PoolModel_doExit_def PoolModel_doSingleSwap_def
  PoolModel_doBatchSwap_def batchSwapStep_def resolve_def
  RelayerModel_new_def RelayerModel_read_def RelayerModel_write_def
  updateDeltas_def updateDelta_def amount_at_def Object_prototype_keys_def Zero_def
  ActionType_Join_def ActionType_Exit_def ActionType_BatchSwap_def ActionType_Swap_def

subsection \<open>Accumulation of deltas\<close>

lemma contribution_untouched: "t \<notin> set ts \<Longrightarrow> contribution t ts ams = 0"
  by (induction t ts ams rule: contribution.induct) auto

lemma contributions_untouched:
  "\<forall>r \<in> set rs. t \<notin> set (fst r) \<Longrightarrow> (\<Sum>r \<leftarrow> rs. contribution t (fst r) (snd r)) = 0"
  by (induction rs) (auto simp: contribution_untouched)

lemma forEach_from_lookup:
  "forEach_from i d ts ams = Inr d' \<Longrightarrow>
   d' t = (if t \<in> set ts then Some (delta_of d t + contribution t ts (drop i ams)) else d t)"
proof (induction ts arbitrary: i d)
  case Nil
  then show ?case by simp
next
  case (Cons a ts)
  from Cons.prems obtain d1 where
    u: "updateDelta d a (amount_at ams i) = Inr d1" and
    r: "forEach_from (Suc i) d1 ts ams = Inr d'"
    by (auto split: sum.splits)
  from u obtain n where n: "amount_at ams i = Some n" and d1: "d1 = d(a \<mapsto> delta_of d a + n)"
    by (auto simp: updateDelta_def delta_of_def Zero_def Let_def split: if_splits option.splits)
  from n have i: "i < length ams" and ai: "ams ! i = Some n"
    by (auto simp: amount_at_def split: if_splits)
  have dr: "drop i ams = Some n # drop (Suc i) ams"
    using i ai by (metis Cons_nth_drop_Suc)
  show ?case
    using Cons.IH[OF r] d1 dr by (auto simp: delta_of_def contribution_untouched)
qed

lemma updateDeltas_lookup:
  "updateDeltas d ts ams = Inr d' \<Longrightarrow>
   d' t = (if t \<in> set ts then Some (delta_of d t + contribution t ts ams) else d t)"
  using forEach_from_lookup[of 0 d ts ams d' t] by (simp add: updateDeltas_def)

text \<open>The loop body is the executor's result for the request followed by the merge.\<close>

lemma multicall_step_result:
  "multicall_step pm pools (rl, d) c =
     (case step_result pm pools rl c of
        Inl e \<Rightarrow> Inl e
      | Inr ((ts, ams), rl') \<Rightarrow>
          (case updateDeltas d ts ams of Inl e \<Rightarrow> Inl e | Inr d' \<Rightarrow> Inr (rl', d')))"
  by (simp add: multicall_step_def step_result_def split: sum.splits option.splits prod.splits)

lemma multicall_loop_lookup:
  "multicall_loop pm pools (rl, d) cs = Inr (rl', d') \<Longrightarrow>
   length (step_results pm pools rl cs) = length cs \<and>
   d' t = (if \<exists>r \<in> set (step_results pm pools rl cs). t \<in> set (fst r)
           then Some (delta_of d t +
                      (\<Sum>r \<leftarrow> step_results pm pools rl cs. contribution t (fst r) (snd r)))
           else d t)"
proof (induction cs arbitrary: rl d)
  case Nil
  then show ?case by simp
next
  case (Cons c cs)
  from Cons.prems obtain ts ams rl1 d1 where
    s: "step_result pm pools rl c = Inr ((ts, ams), rl1)" and
    u: "updateDeltas d ts ams = Inr d1" and
    r: "multicall_loop pm pools (rl1, d1) cs = Inr (rl', d')"
    by (auto simp: multicall_step_result split: sum.splits prod.splits)
  note ih = Cons.IH[OF r]
  note up = updateDeltas_lookup[OF u, of t]
  show ?case
    using ih up s
    by (auto simp: delta_of_def contribution_untouched contributions_untouched)
qed

text \<open>
  Claim C1. When \<^verbatim>\<open>multicall\<close> returns a delta map, every request of the batch has
  contributed one \<^verbatim>\<open>(tokens, amounts)\<close> result, and the map sends each token that occurs
  in some result to the sum, over all steps, of that step's contribution for the token,
  starting from zero; a token that occurs in no result has no entry. A token that occurs
  in two or more steps therefore accumulates and is never overwritten.
\<close>

theorem multicall_accumulates:
  assumes "fst (multicall poolModel vm rawCalls refresh_arg) = Inr deltas"
  shows "length (multicall_results poolModel vm rawCalls refresh_arg) = length rawCalls \<and>
         deltas t =
           (if \<exists>r \<in> set (multicall_results poolModel vm rawCalls refresh_arg). t \<in> set (fst r)
            then Some (\<Sum>r \<leftarrow> multicall_results poolModel vm rawCalls refresh_arg.
                         contribution t (fst r) (snd r))
            else None)"
proof -
  from assms obtain pools rl where
    p: "fst (poolsDictionary (poolsSource vm) (refresh_default refresh_arg)) = Inr pools" and
    l: "multicall_loop poolModel pools (RelayerModel_new, Map.empty) rawCalls = Inr (rl, deltas)"
    by (auto simp: multicall_def Let_def split: prod.splits sum.splits)
  from multicall_loop_lookup[OF l, of t] p show ?thesis
    by (simp add: multicall_results_def delta_of_def)
qed

text \<open>Two joins into pool P1: token A is paid twice, 10 each time.\<close>

theorem multicall_accumulates_witness:
  "fst (multicall (PoolModel_new exampleMath) exampleVault [exampleJoin 1, exampleJoin 2] None)
     = Inr [''A'' \<mapsto> - 10, ''B'' \<mapsto> - 10, ''BPT1'' \<mapsto> 7,
            ''A'' \<mapsto> - 20, ''B'' \<mapsto> - 20, ''BPT1'' \<mapsto> 14]
   \<and> multicall_results (PoolModel_new exampleMath) exampleVault [exampleJoin 1, exampleJoin 2] None
     = [([''A'', ''B'', ''BPT1''], [Some (- 10), Some (- 10), Some 7]),
        ([''A'', ''B'', ''BPT1''], [Some (- 10), Some (- 10), Some 7])]
   \<and> [''A'' \<mapsto> - 10, ''B'' \<mapsto> - 10, ''BPT1'' \<mapsto> 7,
       ''A'' \<mapsto> - 20, ''B'' \<mapsto> - 20, ''BPT1'' \<mapsto> 14::int] ''A''
     = Some (- 10 + - 10)"
proof -
  have h: "fst (multicall (PoolModel_new exampleMath) exampleVault
                  [exampleJoin 1, exampleJoin 2] None)
     = Inr [''A'' \<mapsto> - 10, ''B'' \<mapsto> - 10, ''BPT1'' \<mapsto> 7,
            ''A'' \<mapsto> - 20, ''B'' \<mapsto> - 20, ''BPT1'' \<mapsto> 14]"
    by (simp add: model_defs example_defs Let_def)
  have r: "multicall_results (PoolModel_new exampleMath) exampleVault
             [exampleJoin 1, exampleJoin 2] None
     = [([''A'', ''B'', ''BPT1''], [Some (- 10), Some (- 10), Some 7]),
        ([''A'', ''B'', ''BPT1''], [Some (- 10), Some (- 10), Some 7])]"
    by (simp add: multicall_results_def step_result_def model_defs example_defs Let_def)
  from multicall_accumulates[OF h, of "''A''"] h r show ?thesis by simp
qed

subsection \<open>Dispatch on the tag\<close>

lemma forEach_from_not_unsupported: "forEach_from i d ts ams \<noteq> Inl UnsupportedActionError"
  by (induction ts arbitrary: i d)
     (auto simp: updateDelta_def Let_def split: sum.splits option.splits if_splits)

lemma updateDeltas_not_unsupported: "updateDeltas d ts ams \<noteq> Inl UnsupportedActionError"
  by (simp add: updateDeltas_def forEach_from_not_unsupported)

text \<open>
  Claim C2, as amended. The dispatch of \<^verbatim>\<open>multicall\<close> tests the tag for
  \<^verbatim>\<open>Join\<close>, \<^verbatim>\<open>Exit\<close> and \<^verbatim>\<open>BatchSwap\<close> and ends in an \<^verbatim>\<open>else\<close>: a
  request with any other tag, \<^verbatim>\<open>Swap\<close> or a number that is no member of the enum, is
  handed to \<^verbatim>\<open>doSingleSwap\<close> and its result is merged under
  \<^verbatim>\<open>[assetOut, assetIn]\<close>. The step fails with \<open>UnsupportedActionError\<close> only if
  the executor itself does; \<^verbatim>\<open>multicall\<close> raises none of its own.
\<close>

theorem multicall_step_other_tags:
  assumes "call_actionType call \<notin> {ActionType_Join, ActionType_Exit, ActionType_BatchSwap}"
  shows "multicall_step poolModel pools (rl, deltas) call =
           (case doSingleSwap poolModel rl call pools of
              Inl e \<Rightarrow> Inl e
            | Inr (swapDeltas, rl') \<Rightarrow>
                (case call_request call of
                   None \<Rightarrow> Inl TypeError
                 | Some rq \<Rightarrow>
                     (case updateDeltas deltas [assetOut rq, assetIn rq] swapDeltas of
                        Inl e \<Rightarrow> Inl e
                      | Inr deltas' \<Rightarrow> Inr (rl', deltas'))))
         \<and> (multicall_step poolModel pools (rl, deltas) call = Inl UnsupportedActionError
              \<longrightarrow> doSingleSwap poolModel rl call pools = Inl UnsupportedActionError)"
proof -
  have eq: "multicall_step poolModel pools (rl, deltas) call =
           (case doSingleSwap poolModel rl call pools of
              Inl e \<Rightarrow> Inl e
            | Inr (swapDeltas, rl') \<Rightarrow>
                (case call_request call of
                   None \<Rightarrow> Inl TypeError
                 | Some rq \<Rightarrow>
                     (case updateDeltas deltas [assetOut rq, assetIn rq] swapDeltas of
                        Inl e \<Rightarrow> Inl e
                      | Inr deltas' \<Rightarrow> Inr (rl', deltas'))))"
    using assms by (simp add: multicall_step_def)
  show ?thesis
    unfolding eq
    by (auto simp: updateDeltas_not_unsupported split: sum.splits option.splits prod.splits)
qed

text \<open>A request of the shape of a swap whose tag is 7.\<close>

theorem multicall_step_other_tags_witness:
  "call_actionType (exampleSwap 7 (Literal 5) 1)
     \<notin> {ActionType_Join, ActionType_Exit, ActionType_BatchSwap}
   \<and> multicall_step (PoolModel_new exampleMath) (buildDictionary examplePools)
        (RelayerModel_new, Map.empty) (exampleSwap 7 (Literal 5) 1)
     = Inr ([1 \<mapsto> 5], [''B'' \<mapsto> 5, ''A'' \<mapsto> - 5])"
proof -
  have h: "call_actionType (exampleSwap 7 (Literal 5) 1)
     \<notin> {ActionType_Join, ActionType_Exit, ActionType_BatchSwap}"
    by (simp add: model_defs example_defs)
  from multicall_step_other_tags[OF h, of "PoolModel_new exampleMath" "buildDictionary examplePools"
        RelayerModel_new Map.empty] h
  show ?thesis
    by (simp add: model_defs example_defs Let_def)
qed

text \<open>
  Claim C2 as stated fails: the request with tag 7 is not rejected. \<^verbatim>\<open>multicall\<close>
  processes it as a single swap and returns a delta map.
\<close>

theorem multicall_unrecognized_tag_counterexample:
  "call_actionType (exampleSwap 7 (Literal 5) 1)
     \<notin> {ActionType_BatchSwap, ActionType_Join, ActionType_Exit, ActionType_Swap}
   \<and> fst (multicall (PoolModel_new exampleMath) exampleVault [exampleSwap 7 (Literal 5) 1] None)
     = Inr [''B'' \<mapsto> 5, ''A'' \<mapsto> - 5]
   \<and> fst (multicall (PoolModel_new exampleMath) exampleVault [exampleSwap 7 (Literal 5) 1] None)
     \<noteq> Inl UnsupportedActionError"
  by (simp add: model_defs example_defs Let_def)

subsection \<open>Failure of a step\<close>

lemma multicall_loop_append:
  "multicall_loop pm pools st (xs @ ys) =
     (case multicall_loop pm pools st xs of Inl e \<Rightarrow> Inl e | Inr st' \<Rightarrow> multicall_loop pm pools st' ys)"
  by (induction xs arbitrary: st) (auto split: sum.splits)

text \<open>
  Claim C3. Let the pool dictionary be obtained and the requests before \<open>call\<close> be
  processed, leaving the ledger \<open>rl\<close> and the delta map \<open>d\<close>. If the execution of
  \<open>call\<close> then fails with the error \<open>e\<close>, that is, the executor operation that its
  tag selects (\<^verbatim>\<open>doJoin\<close>, \<^verbatim>\<open>doExit\<close>, \<^verbatim>\<open>doBatchSwap\<close>, or
  \<^verbatim>\<open>doSingleSwap\<close> for every other tag) rejects with \<open>e\<close>, or the read of the
  request's token list throws \<open>e\<close>, or \<^verbatim>\<open>updateDeltas\<close> throws \<open>e\<close> on the
  executor's result, then \<^verbatim>\<open>multicall\<close> fails with \<open>e\<close>, whatever requests follow:
  the result is that error and no delta map.
\<close>

theorem multicall_aborts_on_failure:
  assumes "fst (poolsDictionary (poolsSource vm) (refresh_default refresh_arg)) = Inr pools"
    and "multicall_loop poolModel pools (RelayerModel_new, Map.empty) before = Inr (rl, d)"
    and "(call_actionType call = ActionType_Join \<and> doJoin poolModel rl call pools = Inl e)
         \<or> (call_actionType call = ActionType_Exit \<and> doExit poolModel rl call pools = Inl e)
         \<or> (call_actionType call = ActionType_BatchSwap
              \<and> doBatchSwap poolModel rl call pools = Inl e)
         \<or> (call_actionType call \<notin> {ActionType_Join, ActionType_Exit, ActionType_BatchSwap}
              \<and> doSingleSwap poolModel rl call pools = Inl e)
         \<or> step_result poolModel pools rl call = Inl e
         \<or> (\<exists>tokens amounts rl'.
                step_result poolModel pools rl call = Inr ((tokens, amounts), rl')
                \<and> updateDeltas d tokens amounts = Inl e)"
  shows "fst (multicall poolModel vm (before @ call # rest) refresh_arg) = Inl e"
proof -
  have tags: "ActionType_Exit \<noteq> ActionType_Join" "ActionType_BatchSwap \<noteq> ActionType_Join"
    "ActionType_BatchSwap \<noteq> ActionType_Exit"
    by (simp_all add: ActionType_Join_def ActionType_Exit_def ActionType_BatchSwap_def)
  from assms(3) tags
  have "step_result poolModel pools rl call = Inl e
        \<or> (\<exists>tokens amounts rl'.
                step_result poolModel pools rl call = Inr ((tokens, amounts), rl')
                \<and> updateDeltas d tokens amounts = Inl e)"
    by (auto simp: step_result_def)
  then have "multicall_step poolModel pools (rl, d) call = Inl e"
    by (auto simp: multicall_step_result)
  with assms(1,2) show ?thesis
    by (auto simp: multicall_def Let_def multicall_loop_append split: prod.splits sum.splits)
qed

text \<open>
  A join that writes output reference 1 a second time, between two other joins:
  \<^verbatim>\<open>doJoin\<close> rejects, and so does \<^verbatim>\<open>multicall\<close>.
\<close>

theorem multicall_aborts_on_failure_witness:
  "fst (poolsDictionary (poolsSource exampleVault) (refresh_default None))
     = Inr (buildDictionary examplePools)
   \<and> multicall_loop (PoolModel_new exampleMath) (buildDictionary examplePools)
        (RelayerModel_new, Map.empty) [exampleJoin 1]
     = Inr ([1 \<mapsto> 7], [''A'' \<mapsto> - 10, ''B'' \<mapsto> - 10, ''BPT1'' \<mapsto> 7])
   \<and> call_actionType (exampleJoin 1) = ActionType_Join
   \<and> doJoin (PoolModel_new exampleMath) [1 \<mapsto> 7] (exampleJoin 1) (buildDictionary examplePools)
     = Inl DuplicateReferenceError
   \<and> fst (multicall (PoolModel_new exampleMath) exampleVault
            ([exampleJoin 1] @ exampleJoin 1 # [exampleJoin 2]) None)
     = Inl DuplicateReferenceError"
proof -
  have a: "fst (poolsDictionary (poolsSource exampleVault) (refresh_default None))
     = Inr (buildDictionary examplePools)"
    by (simp add: model_defs example_defs Let_def)
  have b: "multicall_loop (PoolModel_new exampleMath) (buildDictionary examplePools)
        (RelayerModel_new, Map.empty) [exampleJoin 1]
     = Inr ([1 \<mapsto> 7], [''A'' \<mapsto> - 10, ''B'' \<mapsto> - 10, ''BPT1'' \<mapsto> 7])"
    by (simp add: model_defs example_defs Let_def)
  have c: "call_actionType (exampleJoin 1) = ActionType_Join"
    by (simp add: exampleJoin_def)
  have d: "doJoin (PoolModel_new exampleMath) [1 \<mapsto> 7] (exampleJoin 1)
             (buildDictionary examplePools) = Inl DuplicateReferenceError"
    by (simp add: model_defs example_defs Let_def)
  have e:
    "(call_actionType (exampleJoin 1) = ActionType_Join
        \<and> doJoin (PoolModel_new exampleMath) [1 \<mapsto> 7] (exampleJoin 1)
             (buildDictionary examplePools) = Inl DuplicateReferenceError)
     \<or> (call_actionType (exampleJoin 1) = ActionType_Exit
        \<and> doExit (PoolModel_new exampleMath) [1 \<mapsto> 7] (exampleJoin 1)
             (buildDictionary examplePools) = Inl DuplicateReferenceError)
     \<or> (call_actionType (exampleJoin 1) = ActionType_BatchSwap
        \<and> doBatchSwap (PoolModel_new exampleMath) [1 \<mapsto> 7] (exampleJoin 1)
             (buildDictionary examplePools) = Inl DuplicateReferenceError)
     \<or> (call_actionType (exampleJoin 1)
            \<notin> {ActionType_Join, ActionType_Exit, ActionType_BatchSwap}
        \<and> doSingleSwap (PoolModel_new exampleMath) [1 \<mapsto> 7] (exampleJoin 1)
             (buildDictionary examplePools) = Inl DuplicateReferenceError)
     \<or> step_result (PoolModel_new exampleMath) (buildDictionary examplePools) [1 \<mapsto> 7]
          (exampleJoin 1) = Inl DuplicateReferenceError
     \<or> (\<exists>tokens amounts rl'.
          step_result (PoolModel_new exampleMath) (buildDictionary examplePools) [1 \<mapsto> 7]
            (exampleJoin 1) = Inr ((tokens, amounts), rl')
          \<and> updateDeltas [''A'' \<mapsto> - 10, ''B'' \<mapsto> - 10, ''BPT1'' \<mapsto> 7] tokens amounts
              = Inl DuplicateReferenceError)"
    using c d by blast
  from multicall_aborts_on_failure[OF a b e, of "[exampleJoin 2]"] a b c d
  show ?thesis by (intro conjI)
qed

subsection \<open>Scope of the ledger\<close>

lemma multicall_instance_after:
  "snd (multicall pm vm cs refresh_arg) =
     vm\<lparr>poolsSource := snd (poolsDictionary (poolsSource vm) (refresh_default refresh_arg))\<rparr>"
  by (simp add: multicall_def Let_def split: prod.splits sum.splits)

text \<open>
  Claim C5. The ledger and the executor are built inside \<^verbatim>\<open>multicall\<close>, before the
  first request, and the instance keeps nothing of them: the instance after an invocation
  is the same whatever the batch was, so the result of a later invocation does not depend
  on the requests of an earlier one, and every invocation runs its requests from the
  empty ledger and the empty delta map.
\<close>

theorem multicall_no_cross_call_state:
  "snd (multicall poolModel vm rawCalls1 refresh1) = snd (multicall poolModel vm [] refresh1)
   \<and> fst (multicall poolModel (snd (multicall poolModel vm rawCalls1 refresh1)) rawCalls2 refresh2)
     = fst (multicall poolModel (snd (multicall poolModel vm [] refresh1)) rawCalls2 refresh2)
   \<and> fst (multicall poolModel vm rawCalls1 refresh1)
     = (case fst (poolsDictionary (poolsSource vm) (refresh_default refresh1)) of
          Inl e \<Rightarrow> Inl e
        | Inr pools \<Rightarrow>
            (case multicall_loop poolModel pools (Map.empty, Map.empty) rawCalls1 of
               Inl e \<Rightarrow> Inl e
             | Inr st \<Rightarrow> Inr (snd st)))"
  by (simp add: multicall_instance_after)
     (simp add: multicall_def RelayerModel_new_def Let_def split: prod.splits sum.splits)

text \<open>
  A join records output reference 1; a swap that reads reference 1 succeeds in the same
  batch and fails in the next invocation on the same instance.
\<close>

theorem multicall_no_cross_call_state_witness:
  "fst (multicall (PoolModel_new exampleMath) exampleVault
          [exampleJoin 1, exampleSwap 3 (ChainedRef 1) 2] None)
     = Inr [''A'' \<mapsto> - 10, ''B'' \<mapsto> - 10, ''BPT1'' \<mapsto> 7, ''B'' \<mapsto> - 3, ''A'' \<mapsto> - 17]
   \<and> fst (multicall (PoolModel_new exampleMath)
            (snd (multicall (PoolModel_new exampleMath) exampleVault [exampleJoin 1] None))
            [exampleSwap 3 (ChainedRef 1) 2] None)
     = Inl UnresolvedReferenceError"
proof -
  have a: "fst (multicall (PoolModel_new exampleMath) exampleVault
          [exampleJoin 1, exampleSwap 3 (ChainedRef 1) 2] None)
     = Inr [''A'' \<mapsto> - 10, ''B'' \<mapsto> - 10, ''BPT1'' \<mapsto> 7, ''B'' \<mapsto> - 3, ''A'' \<mapsto> - 17]"
    by (simp add: model_defs example_defs Let_def)
  have b: "fst (multicall (PoolModel_new exampleMath)
            (snd (multicall (PoolModel_new exampleMath) exampleVault [] None))
            [exampleSwap 3 (ChainedRef 1) 2] None)
     = Inl UnresolvedReferenceError"
    by (simp add: model_defs example_defs Let_def)
  from multicall_no_cross_call_state[of "PoolModel_new exampleMath" exampleVault
         "[exampleJoin 1]" None "[exampleSwap 3 (ChainedRef 1) 2]" None] a b
  show ?thesis by simp
qed

subsection \<open>The pools cache\<close>


lemma poolsDictionary_installs:
  "fst (poolsDictionary src rf) = Inr pools \<Longrightarrow> cache (snd (poolsDictionary src rf)) = Some pools"
  by (auto simp: poolsDictionary_def Let_def split: bool.splits option.splits)

lemma poolsDictionary_cached:
  "cache src = Some pools \<Longrightarrow>
   poolsDictionary src False = (Inr pools, src\<lparr>lookups := Suc (lookups src)\<rparr>)"
  by (simp add: poolsDictionary_def Let_def)

lemma poolsDictionary_refresh:
  "fetches (snd (poolsDictionary src True)) = Suc (fetches src)"
  by (simp add: poolsDictionary_def Let_def split: option.splits)

text \<open>
  Claim C6. Let a first invocation obtain its dictionary. A second invocation on the
  instance it leaves, with \<open>refresh\<close> false, issues no fetch and works on that same
  dictionary; with \<open>refresh\<close> true it issues one fetch. An invocation with \<open>refresh\<close>
  true issues a fetch whatever the state of the cache, and an invocation without the
  argument is the invocation with \<open>refresh\<close> false.
\<close>


theorem multicall_cache_behaviour:
  assumes "fst (poolsDictionary (poolsSource vm) (refresh_default refresh1)) = Inr pools"
  shows "fetches (poolsSource (snd (multicall poolModel
             (snd (multicall poolModel vm rawCalls1 refresh1)) rawCalls2 (Some False))))
           = fetches (poolsSource (snd (multicall poolModel vm rawCalls1 refresh1)))
         \<and> fst (poolsDictionary (poolsSource (snd (multicall poolModel vm rawCalls1 refresh1))) False)
           = Inr pools
         \<and> fetches (poolsSource (snd (multicall poolModel
             (snd (multicall poolModel vm rawCalls1 refresh1)) rawCalls2 (Some True))))
           = Suc (fetches (poolsSource (snd (multicall poolModel vm rawCalls1 refresh1))))
         \<and> fetches (poolsSource (snd (multicall poolModel vm rawCalls1 (Some True))))
           = Suc (fetches (poolsSource vm))
         \<and> multicall poolModel vm rawCalls1 None = multicall poolModel vm rawCalls1 (Some False)"
proof -
  let ?vm1 = "snd (multicall poolModel vm rawCalls1 refresh1)"
  have c: "cache (poolsSource ?vm1) = Some pools"
    using poolsDictionary_installs[OF assms] by (simp add: multicall_instance_after)
  have 1: "fetches (poolsSource (snd (multicall poolModel ?vm1 rawCalls2 (Some False))))
           = fetches (poolsSource ?vm1)"
    using poolsDictionary_cached[OF c]
    by (simp add: multicall_instance_after[of poolModel ?vm1] refresh_default_def)
  have 2: "fst (poolsDictionary (poolsSource ?vm1) False) = Inr pools"
    using poolsDictionary_cached[OF c] by simp
  have 3: "fetches (poolsSource (snd (multicall poolModel v cs (Some True))))
           = Suc (fetches (poolsSource v))" for v cs
    by (simp add: multicall_instance_after refresh_default_def poolsDictionary_refresh)
  have 4: "multicall poolModel vm rawCalls1 None = multicall poolModel vm rawCalls1 (Some False)"
    by (simp add: multicall_def refresh_default_def)
  from 1 2 3 4 show ?thesis by simp
qed

text \<open>A first call that fetches, then a call without and a call with refresh.\<close>


theorem multicall_cache_behaviour_witness:
  "fst (poolsDictionary (poolsSource exampleVault) (refresh_default None))
     = Inr (buildDictionary examplePools)
   \<and> fetches (poolsSource (snd (multicall (PoolModel_new exampleMath) exampleVault
                                    [exampleJoin 1] None))) = 1
   \<and> fetches (poolsSource (snd (multicall (PoolModel_new exampleMath)
        (snd (multicall (PoolModel_new exampleMath) exampleVault [exampleJoin 1] None))
        [exampleJoin 2] (Some False)))) = 1
   \<and> fetches (poolsSource (snd (multicall (PoolModel_new exampleMath)
        (snd (multicall (PoolModel_new exampleMath) exampleVault [exampleJoin 1] None))
        [exampleJoin 2] (Some True)))) = 2"
proof -
  have a: "fst (poolsDictionary (poolsSource exampleVault) (refresh_default None))
     = Inr (buildDictionary examplePools)"
    by (simp add: model_defs example_defs Let_def)
  have b: "fetches (poolsSource (snd (multicall (PoolModel_new exampleMath) exampleVault
                                    [exampleJoin 1] None))) = 1"
    by (simp add: multicall_instance_after refresh_default_def poolsDictionary_def example_defs Let_def)
  note t = multicall_cache_behaviour[OF a, of "PoolModel_new exampleMath" "[exampleJoin 1]"
             "[exampleJoin 2]"]
  from t[THEN conjunct1] have c: "fetches (poolsSource (snd (multicall (PoolModel_new exampleMath)
        (snd (multicall (PoolModel_new exampleMath) exampleVault [exampleJoin 1] None))
        [exampleJoin 2] (Some False)))) = 1"
    unfolding b .
  from t[THEN conjunct2, THEN conjunct2, THEN conjunct1] have d: "fetches (poolsSource (snd (multicall (PoolModel_new exampleMath)
        (snd (multicall (PoolModel_new exampleMath) exampleVault [exampleJoin 1] None))
        [exampleJoin 2] (Some True)))) = 2"
    unfolding b by simp
  from a b c d show ?thesis by (intro conjI)
qed

text \<open>
  Claim C10. For the empty batch, when the pools source yields the dictionary,
  \<^verbatim>\<open>multicall\<close> returns the empty delta map, and the instance it leaves is the
  instance whose pools source has served \<^verbatim>\<open>poolsDictionary(refresh)\<close> once: whatever
  that call does to the cache and to the data provider has been done, once, and the
  number of calls served has grown by one.
\<close>

theorem multicall_empty:
  assumes "fst (poolsDictionary (poolsSource vm) (refresh_default refresh_arg)) = Inr pools"
  shows "fst (multicall poolModel vm [] refresh_arg) = Inr Map.empty
         \<and> snd (multicall poolModel vm [] refresh_arg)
           = vm\<lparr>poolsSource :=
                  snd (poolsDictionary (poolsSource vm) (refresh_default refresh_arg))\<rparr>
         \<and> lookups (poolsSource (snd (multicall poolModel vm [] refresh_arg)))
           = Suc (lookups (poolsSource vm))"
proof -
  have 1: "fst (multicall poolModel vm [] refresh_arg) = Inr Map.empty"
    using assms by (auto simp: multicall_def Let_def split: prod.splits sum.splits)
  have 2: "snd (multicall poolModel vm [] refresh_arg)
           = vm\<lparr>poolsSource :=
                  snd (poolsDictionary (poolsSource vm) (refresh_default refresh_arg))\<rparr>"
    by (rule multicall_instance_after)
  have 3: "lookups (snd (poolsDictionary src rf)) = Suc (lookups src)" for src rf
    by (simp add: poolsDictionary_def Let_def split: bool.splits option.splits)
  from 1 2 3 show ?thesis by simp
qed

text \<open>
  The empty batch on a new instance: the dictionary has been fetched and installed.
\<close>

theorem multicall_empty_witness:
  "fst (poolsDictionary (poolsSource exampleVault) (refresh_default None))
     = Inr (buildDictionary examplePools)
   \<and> fst (multicall (PoolModel_new exampleMath) exampleVault [] None) = Inr Map.empty
   \<and> cache (poolsSource (snd (multicall (PoolModel_new exampleMath) exampleVault [] None)))
     = Some (buildDictionary examplePools)
   \<and> fetches (poolsSource (snd (multicall (PoolModel_new exampleMath) exampleVault [] None))) = 1
   \<and> lookups (poolsSource (snd (multicall (PoolModel_new exampleMath) exampleVault [] None))) = 1"
proof -
  have a: "fst (poolsDictionary (poolsSource exampleVault) (refresh_default None))
     = Inr (buildDictionary examplePools)"
    by (simp add: model_defs example_defs Let_def)
  note t = multicall_empty[OF a, of "PoolModel_new exampleMath"]
  have s: "snd (poolsDictionary (poolsSource exampleVault) (refresh_default None))
     = (poolsSource exampleVault)\<lparr>lookups := 1, fetches := 1,
          cache := Some (buildDictionary examplePools)\<rparr>"
    by (simp add: refresh_default_def poolsDictionary_def example_defs Let_def)
  from t[THEN conjunct1] have b:
    "fst (multicall (PoolModel_new exampleMath) exampleVault [] None) = Inr Map.empty" .
  from t[THEN conjunct2, THEN conjunct1] s have c:
    "poolsSource (snd (multicall (PoolModel_new exampleMath) exampleVault [] None))
       = (poolsSource exampleVault)\<lparr>lookups := 1, fetches := 1,
          cache := Some (buildDictionary examplePools)\<rparr>"
    by simp
  from a b c show ?thesis by simp
qed

subsection \<open>The single swap\<close>


lemma updateDeltas_pair:
  "updateDeltas d [a, b] [Some x, Some y] = Inr d' \<Longrightarrow>
   d' = (d(a \<mapsto> delta_of d a + x))(b \<mapsto> delta_of (d(a \<mapsto> delta_of d a + x)) b + y)"
  unfolding updateDeltas_def forEach_from.simps updateDelta_def Zero_def delta_of_def
  by (simp add: amount_at_def Let_def split: if_splits)

text \<open>
  Claim C4. A step on a \<^verbatim>\<open>Swap\<close> request that succeeds has merged exactly two
  entries, in the order \<^verbatim>\<open>[assetOut, assetIn]\<close>: the amount at position 0, the amount
  received from the math provider's outcome, is added to \<^verbatim>\<open>assetOut\<close> and is not
  negative; the amount at position 1, the negated amount paid, is then added to
  \<^verbatim>\<open>assetIn\<close> and is not positive. No other token of the delta map changes.
\<close>


theorem single_swap_contribution:
  assumes "call_actionType (SwapReq sr) = ActionType_Swap"
    and "multicall_step (PoolModel_new math) pools (rl, deltas) (SwapReq sr) = Inr (rl', deltas')"
  shows "\<exists>p amt paid received.
           pools (SingleSwap.poolId (request sr)) = Some p
           \<and> resolve rl (SingleSwap.amount (request sr)) = Inr amt
           \<and> swapMath math p (kind (request sr)) (assetIn (request sr)) (assetOut (request sr)) amt
               = Inr (paid, received)
           \<and> step_result (PoolModel_new math) pools rl (SwapReq sr)
               = Inr (([assetOut (request sr), assetIn (request sr)],
                       [Some (int received), Some (- int paid)]), rl')
           \<and> 0 \<le> int received \<and> - int paid \<le> 0
           \<and> deltas' =
               (deltas(assetOut (request sr) \<mapsto> delta_of deltas (assetOut (request sr)) + int received))
                 (assetIn (request sr) \<mapsto>
                    delta_of (deltas(assetOut (request sr) \<mapsto>
                                delta_of deltas (assetOut (request sr)) + int received))
                      (assetIn (request sr)) - int paid)"
proof -
  have tag: "SwapRequest.actionType sr \<noteq> ActionType_Join"
    "SwapRequest.actionType sr \<noteq> ActionType_Exit"
    "SwapRequest.actionType sr \<noteq> ActionType_BatchSwap"
    using assms(1)
    by (simp_all add: ActionType_Swap_def ActionType_Join_def ActionType_Exit_def
                      ActionType_BatchSwap_def)
  from assms(2) tag obtain sd where
    ex: "PoolModel_doSingleSwap math rl (SwapReq sr) pools = Inr (sd, rl')" and
    up: "updateDeltas deltas [assetOut (request sr), assetIn (request sr)] sd = Inr deltas'"
    by (auto simp: multicall_step_def PoolModel_new_def split: sum.splits prod.splits)
  from ex obtain p amt paid received where
    p: "pools (SingleSwap.poolId (request sr)) = Some p" and
    a: "resolve rl (SingleSwap.amount (request sr)) = Inr amt" and
    m: "swapMath math p (kind (request sr)) (assetIn (request sr)) (assetOut (request sr)) amt
          = Inr (paid, received)" and
    sd: "sd = [Some (int received), Some (- int paid)]"
    by (auto simp: PoolModel_doSingleSwap_def Let_def split: option.splits sum.splits prod.splits)
  have sr: "step_result (PoolModel_new math) pools rl (SwapReq sr)
               = Inr (([assetOut (request sr), assetIn (request sr)],
                       [Some (int received), Some (- int paid)]), rl')"
    using ex tag sd by (simp add: step_result_def PoolModel_new_def)
  have d: "deltas' =
               (deltas(assetOut (request sr) \<mapsto> delta_of deltas (assetOut (request sr)) + int received))
                 (assetIn (request sr) \<mapsto>
                    delta_of (deltas(assetOut (request sr) \<mapsto>
                                delta_of deltas (assetOut (request sr)) + int received))
                      (assetIn (request sr)) - int paid)"
    using updateDeltas_pair[OF up[unfolded sd]] by simp
  from p a m sr d show ?thesis by auto
qed

text \<open>A swap of 5 A for B in pool P1, on a delta map that holds 100 for A.\<close>


theorem single_swap_contribution_witness:
  "call_actionType (exampleSwap 3 (Literal 5) 1) = ActionType_Swap
   \<and> multicall_step (PoolModel_new exampleMath) (buildDictionary examplePools)
        (RelayerModel_new, [''A'' \<mapsto> 100]) (exampleSwap 3 (Literal 5) 1)
      = Inr ([1 \<mapsto> 5], [''A'' \<mapsto> 100, ''B'' \<mapsto> 5, ''A'' \<mapsto> 95])
   \<and> step_result (PoolModel_new exampleMath) (buildDictionary examplePools)
        RelayerModel_new (exampleSwap 3 (Literal 5) 1)
      = Inr (([''B'', ''A''], [Some 5, Some (- 5)]), [1 \<mapsto> 5])"
proof -
  have a: "call_actionType (exampleSwap 3 (Literal 5) 1) = ActionType_Swap"
    by (simp add: model_defs example_defs)
  have b: "multicall_step (PoolModel_new exampleMath) (buildDictionary examplePools)
        (RelayerModel_new, [''A'' \<mapsto> 100]) (exampleSwap 3 (Literal 5) 1)
      = Inr ([1 \<mapsto> 5], [''A'' \<mapsto> 100, ''B'' \<mapsto> 5, ''A'' \<mapsto> 95])"
    by (simp add: model_defs example_defs Let_def)
  have c: "step_result (PoolModel_new exampleMath) (buildDictionary examplePools)
        RelayerModel_new (exampleSwap 3 (Literal 5) 1)
      = Inr (([''B'', ''A''], [Some 5, Some (- 5)]), [1 \<mapsto> 5])"
    using single_swap_contribution[OF a[unfolded exampleSwap_def] b[unfolded exampleSwap_def]]
    by (auto simp: model_defs example_defs)
  from a b c show ?thesis by simp
qed

subsection \<open>The mapping helpers\<close>

text \<open>
  Claim C7. Each of the four static helpers returns a request that carries the tag of its
  variant, whose every other field is the field of the descriptor it is read from, and
  that has no further field. The helpers are functions of the descriptor alone, which
  they leave as it is.
\<close>


theorem map_requests_faithful:
  "SwapRequest.actionType (mapSwapRequest sw) = ActionType_Swap
   \<and> SwapRequest.request (mapSwapRequest sw) = Swap.request sw
   \<and> SwapRequest.funds (mapSwapRequest sw) = Swap.funds sw
   \<and> SwapRequest.outputReference (mapSwapRequest sw) = Swap.outputReference sw
   \<and> SwapRequest.more (mapSwapRequest sw) = ()
   \<and> BatchSwapRequest.actionType (mapBatchSwapRequest bs) = ActionType_BatchSwap
   \<and> BatchSwapRequest.swaps (mapBatchSwapRequest bs) = EncodeBatchSwapInput.swaps bs
   \<and> BatchSwapRequest.assets (mapBatchSwapRequest bs) = EncodeBatchSwapInput.assets bs
   \<and> BatchSwapRequest.funds (mapBatchSwapRequest bs) = EncodeBatchSwapInput.funds bs
   \<and> BatchSwapRequest.swapType (mapBatchSwapRequest bs) = EncodeBatchSwapInput.swapType bs
   \<and> BatchSwapRequest.outputReferences (mapBatchSwapRequest bs) = EncodeBatchSwapInput.outputReferences bs
   \<and> BatchSwapRequest.more (mapBatchSwapRequest bs) = ()
   \<and> JoinPoolRequest.actionType (mapJoinPoolRequest jn) = ActionType_Join
   \<and> JoinPoolRequest.poolId (mapJoinPoolRequest jn) = EncodeJoinPoolInput.poolId jn
   \<and> JoinPoolRequest.encodedUserData (mapJoinPoolRequest jn) = userData (joinPoolRequest jn)
   \<and> JoinPoolRequest.outputReference (mapJoinPoolRequest jn) = EncodeJoinPoolInput.outputReference jn
   \<and> JoinPoolRequest.more (mapJoinPoolRequest jn) = ()
   \<and> ExitPoolRequest.actionType (mapExitPoolRequest ex) = ActionType_Exit
   \<and> ExitPoolRequest.poolId (mapExitPoolRequest ex) = EncodeExitPoolInput.poolId ex
   \<and> ExitPoolRequest.encodedUserData (mapExitPoolRequest ex) = userData (exitPoolRequest ex)
   \<and> ExitPoolRequest.outputReferences (mapExitPoolRequest ex) = EncodeExitPoolInput.outputReferences ex
   \<and> ExitPoolRequest.more (mapExitPoolRequest ex) = ()"
  by (simp add: mapSwapRequest_def mapBatchSwapRequest_def mapJoinPoolRequest_def mapExitPoolRequest_def)

subsection \<open>Exits of stable phantom pools\<close>

text \<open>
  Claim C9. Each of the three build methods of \<^verbatim>\<open>StablePhantomPoolExit\<close> throws the
  error with the message \<^verbatim>\<open>Exit type not supported\<close> on every input.
\<close>


theorem StablePhantomPoolExit_unsupported:
  "buildExitExactBPTIn a = Inl (Error ''Exit type not supported'')
   \<and> buildExitExactTokensOut b = Inl (Error ''Exit type not supported'')
   \<and> buildRecoveryExit c = Inl (Error ''Exit type not supported'')"
  by (simp add: buildExitExactBPTIn_def buildExitExactTokensOut_def buildRecoveryExit_def)

subsection \<open>Order of producer and consumer\<close>

text \<open>The executor only adds entries to the ledger.\<close>

lemma write_le: "RelayerModel_write rl r v = Inr rl' \<Longrightarrow> rl \<subseteq>\<^sub>m rl'"
  by (auto simp: RelayerModel_write_def map_le_def split: option.splits)

lemma write_all_le: "write_all rl ws = Inr rl' \<Longrightarrow> rl \<subseteq>\<^sub>m rl'"
proof (induction rl ws rule: write_all.induct)
  case (1 rl)
  then show ?case by simp
next
  case (2 rl r v rest)
  from "2.prems" obtain rl1 where w: "RelayerModel_write rl r v = Inr rl1"
    and a: "write_all rl1 rest = Inr rl'"
    by (auto split: sum.splits)
  from write_le[OF w] "2.IH"[OF w a] show ?case by (rule map_le_trans)
qed

lemma step_le:
  "multicall_step (PoolModel_new math) pools (rl, d) c = Inr (rl', d') \<Longrightarrow> rl \<subseteq>\<^sub>m rl'"
  by (auto simp: multicall_step_def PoolModel_new_def PoolModel_doJoin_def PoolModel_doExit_def
        PoolModel_doSingleSwap_def PoolModel_doBatchSwap_def Let_def
        dest: write_le write_all_le
        split: if_splits sum.splits prod.splits option.splits Requests.splits)

lemma loop_le:
  "multicall_loop (PoolModel_new math) pools (rl, d) cs = Inr (rl', d') \<Longrightarrow> rl \<subseteq>\<^sub>m rl'"
proof (induction cs arbitrary: rl d)
  case Nil
  then show ?case by simp
next
  case (Cons c cs)
  from Cons.prems obtain rl1 d1 where
    s: "multicall_step (PoolModel_new math) pools (rl, d) c = Inr (rl1, d1)" and
    l: "multicall_loop (PoolModel_new math) pools (rl1, d1) cs = Inr (rl', d')"
    by (auto split: sum.splits)
  from step_le[OF s] Cons.IH[OF l] show ?case by (rule map_le_trans)
qed

lemma resolve_le:
  "rl \<subseteq>\<^sub>m rl2 \<Longrightarrow> resolve rl2 a = Inr v \<Longrightarrow>
   resolve rl a = Inr v \<or> resolve rl a = Inl UnresolvedReferenceError"
  by (auto simp: resolve_def RelayerModel_read_def map_le_def dom_def split: amount.splits option.splits)

lemma batchSwapStep_le:
  assumes "rl \<subseteq>\<^sub>m rl2" and "batchSwapStep math pools tokens ty rl2 acc s = Inr acc'"
  shows "batchSwapStep math pools tokens ty rl acc s = Inr acc'
         \<or> batchSwapStep math pools tokens ty rl acc s = Inl UnresolvedReferenceError"
proof (cases "length tokens \<le> assetInIndex s \<or> length tokens \<le> assetOutIndex s
              \<or> BatchSwapStep.amount s = Literal 0")
  case True
  with assms(2) show ?thesis by (auto simp: batchSwapStep_def Let_def split: if_splits)
next
  case False
  with assms(2) obtain p v where p: "pools (BatchSwapStep.poolId s) = Some p"
    and v: "resolve rl2 (BatchSwapStep.amount s) = Inr v"
    by (auto simp: batchSwapStep_def Let_def split: if_splits option.splits sum.splits)
  from resolve_le[OF assms(1) v] show ?thesis
  proof
    assume "resolve rl (BatchSwapStep.amount s) = Inr v"
    with assms(2) v p False show ?thesis
      by (simp add: batchSwapStep_def Let_def)
  next
    assume "resolve rl (BatchSwapStep.amount s) = Inl UnresolvedReferenceError"
    with p False show ?thesis
      by (simp add: batchSwapStep_def Let_def)
  qed
qed

lemma batchSwapStep_unset:
  assumes "rl r = None" and "BatchSwapStep.amount s = ChainedRef r"
    and "batchSwapStep math pools tokens ty rl2 acc s = Inr acc'"
  shows "batchSwapStep math pools tokens ty rl acc s = Inl UnresolvedReferenceError"
  using assms
  by (auto simp: batchSwapStep_def Let_def resolve_def RelayerModel_read_def
           split: if_splits option.splits sum.splits)

lemma batchSwapSteps_le:
  assumes "rl \<subseteq>\<^sub>m rl2"
  shows "batchSwapSteps math pools tokens ty rl2 acc ss = Inr acc' \<Longrightarrow>
         batchSwapSteps math pools tokens ty rl acc ss = Inr acc'
         \<or> batchSwapSteps math pools tokens ty rl acc ss = Inl UnresolvedReferenceError"
proof (induction ss arbitrary: acc)
  case Nil
  then show ?case by simp
next
  case (Cons s ss)
  from Cons.prems obtain acc1 where
    s: "batchSwapStep math pools tokens ty rl2 acc s = Inr acc1" and
    r: "batchSwapSteps math pools tokens ty rl2 acc1 ss = Inr acc'"
    by (auto split: sum.splits)
  from batchSwapStep_le[OF assms s] Cons.IH[OF r] show ?case by auto
qed

lemma batchSwapSteps_unset:
  assumes "rl \<subseteq>\<^sub>m rl2" and "rl r = None"
  shows "batchSwapSteps math pools tokens ty rl2 acc ss = Inr acc' \<Longrightarrow>
         ChainedRef r \<in> set (map BatchSwapStep.amount ss) \<Longrightarrow>
         batchSwapSteps math pools tokens ty rl acc ss = Inl UnresolvedReferenceError"
proof (induction ss arbitrary: acc)
  case Nil
  then show ?case by simp
next
  case (Cons s ss)
  from Cons.prems(1) obtain acc1 where
    s: "batchSwapStep math pools tokens ty rl2 acc s = Inr acc1" and
    r: "batchSwapSteps math pools tokens ty rl2 acc1 ss = Inr acc'"
    by (auto split: sum.splits)
  show ?case
  proof (cases "BatchSwapStep.amount s = ChainedRef r")
    case True
    from batchSwapStep_unset[of rl r, OF assms(2) True s] show ?thesis by simp
  next
    case False
    with Cons.prems(2) have m: "ChainedRef r \<in> set (map BatchSwapStep.amount ss)" by auto
    from batchSwapStep_le[OF assms(1) s] show ?thesis
    proof
      assume "batchSwapStep math pools tokens ty rl acc s = Inr acc1"
      with Cons.IH[OF r m] show ?thesis by simp
    next
      assume "batchSwapStep math pools tokens ty rl acc s = Inl UnresolvedReferenceError"
      then show ?thesis by simp
    qed
  qed
qed

lemma consumer_step_unset:
  assumes le: "rl \<subseteq>\<^sub>m rl2" and un: "rl r = None" and rd: "reads_ref c r"
    and ok: "multicall_step (PoolModel_new math) pools (rl2, d2) c = Inr st"
  shows "multicall_step (PoolModel_new math) pools (rl, d) c = Inl UnresolvedReferenceError"
proof (cases c)
  case (SwapReq sr)
  with ok rd un show ?thesis
    by (auto simp: multicall_step_def PoolModel_new_def PoolModel_doJoin_def PoolModel_doExit_def
          PoolModel_doSingleSwap_def PoolModel_doBatchSwap_def Let_def resolve_def
          RelayerModel_read_def
          split: if_splits sum.splits prod.splits option.splits)
next
  case (BatchSwapReq br)
  from ok BatchSwapReq have tag: "BatchSwapRequest.actionType br = ActionType_BatchSwap"
    "BatchSwapRequest.actionType br \<noteq> ActionType_Join"
    "BatchSwapRequest.actionType br \<noteq> ActionType_Exit"
    by (auto simp: multicall_step_def PoolModel_new_def PoolModel_doJoin_def PoolModel_doExit_def
          PoolModel_doSingleSwap_def Let_def split: if_splits)
  from ok BatchSwapReq tag obtain acc where
    b: "batchSwapSteps math pools (assets br) (swapType br) rl2
          (replicate (length (assets br)) 0) (swaps br) = Inr acc"
    by (auto simp: multicall_step_def PoolModel_new_def PoolModel_doBatchSwap_def
          split: sum.splits prod.splits)
  from rd BatchSwapReq have m: "ChainedRef r \<in> set (map BatchSwapStep.amount (swaps br))" by simp
  from batchSwapSteps_unset[of rl rl2 r, OF le un b m] BatchSwapReq tag show ?thesis
    by (simp add: multicall_step_def PoolModel_new_def PoolModel_doBatchSwap_def)
next
  case (JoinReq jr)
  with rd show ?thesis by simp
next
  case (ExitReq er)
  with rd show ?thesis by simp
qed

text \<open>
  Claim C8. Take a batch that runs without failure through a consumer of the reference
  \<open>r\<close>, and in it a producer, before the consumer, that writes \<open>r\<close>. Move the
  consumer forward to any place before the producer, the requests before that place
  staying as they are. Then \<^verbatim>\<open>multicall\<close> fails with \<open>UnresolvedReferenceError\<close>,
  whatever follows the requests named: when the consumer's turn comes, the reference has
  not been written, and the read of an unset reference fails with that error.
\<close>

theorem consumer_before_producer_fails:
  assumes orig: "fst (multicall (PoolModel_new math) vm
                        (front @ skipped @ producer # between @ [consumer]) refresh_arg) = Inr deltas"
    and prod: "produces (PoolModel_new math) vm (front @ skipped) producer refresh_arg r"
    and rd: "reads_ref consumer r"
  shows "fst (multicall (PoolModel_new math) vm
                (front @ consumer # skipped @ producer # between @ rest) refresh_arg)
           = Inl UnresolvedReferenceError"
proof -
  let ?PM = "PoolModel_new math"
  let ?init = "(RelayerModel_new, Map.empty :: Deltas)"
  from orig obtain pools where
    p: "fst (poolsDictionary (poolsSource vm) (refresh_default refresh_arg)) = Inr pools"
    by (auto simp: multicall_def Let_def split: prod.splits sum.splits)
  from orig p obtain st where
    l: "multicall_loop ?PM pools ?init (front @ skipped @ producer # between @ [consumer]) = Inr st"
    by (auto simp: multicall_def Let_def split: prod.splits sum.splits)
  from l obtain rl d where f: "multicall_loop ?PM pools ?init front = Inr (rl, d)"
    by (auto simp: multicall_loop_append split: sum.splits)
  from l f obtain rlb db where
    s: "multicall_loop ?PM pools (rl, d) skipped = Inr (rlb, db)"
    by (auto simp: multicall_loop_append split: sum.splits)
  from l f have "multicall_loop ?PM pools (rl, d) ((skipped @ producer # between) @ [consumer]) = Inr st"
    by (simp add: multicall_loop_append)
  then obtain rl2 d2 where
    m: "multicall_loop ?PM pools (rl, d) (skipped @ producer # between) = Inr (rl2, d2)" and
    c: "multicall_step ?PM pools (rl2, d2) consumer = Inr st"
    unfolding multicall_loop_append[of _ _ _ "skipped @ producer # between"]
    by (auto split: sum.splits)
  have "multicall_ledger ?PM vm (front @ skipped) refresh_arg = Some rlb"
    using p f s by (simp add: multicall_ledger_def multicall_loop_append)
  with prod have "rlb r = None"
    by (auto simp: produces_def split: option.splits)
  with loop_le[OF s] have un: "rl r = None"
    by (auto simp: map_le_def dom_def)
  from consumer_step_unset[OF loop_le[OF m] un rd c]
  have "multicall_step ?PM pools (rl, d) consumer = Inl UnresolvedReferenceError" .
  with p f show ?thesis
    by (auto simp: multicall_def Let_def multicall_loop_append split: prod.splits sum.splits)
qed

text \<open>
  Two joins and a swap whose amount is the output of the first join; then the swap first.
\<close>

theorem consumer_before_producer_fails_witness:
  "fst (multicall (PoolModel_new exampleMath) exampleVault
          ([] @ [] @ exampleJoin 1 # [exampleJoin 2] @ [exampleSwap 3 (ChainedRef 1) 3]) None)
     = Inr [''A'' \<mapsto> - 10, ''B'' \<mapsto> - 10, ''BPT1'' \<mapsto> 7, ''A'' \<mapsto> - 20, ''B'' \<mapsto> - 20,
            ''BPT1'' \<mapsto> 14, ''B'' \<mapsto> - 13, ''A'' \<mapsto> - 27]
   \<and> produces (PoolModel_new exampleMath) exampleVault ([] @ []) (exampleJoin 1) None 1
   \<and> reads_ref (exampleSwap 3 (ChainedRef 1) 3) 1
   \<and> fst (multicall (PoolModel_new exampleMath) exampleVault
            ([] @ exampleSwap 3 (ChainedRef 1) 3 # [] @ exampleJoin 1 # [exampleJoin 2] @ []) None)
     = Inl UnresolvedReferenceError"
proof -
  have a: "fst (multicall (PoolModel_new exampleMath) exampleVault
          ([] @ [] @ exampleJoin 1 # [exampleJoin 2] @ [exampleSwap 3 (ChainedRef 1) 3]) None)
     = Inr [''A'' \<mapsto> - 10, ''B'' \<mapsto> - 10, ''BPT1'' \<mapsto> 7, ''A'' \<mapsto> - 20, ''B'' \<mapsto> - 20,
            ''BPT1'' \<mapsto> 14, ''B'' \<mapsto> - 13, ''A'' \<mapsto> - 27]"
    by (simp add: model_defs example_defs Let_def)
  have b: "produces (PoolModel_new exampleMath) exampleVault ([] @ []) (exampleJoin 1) None 1"
    by (simp add: produces_def multicall_ledger_def model_defs example_defs Let_def)
  have c: "reads_ref (exampleSwap 3 (ChainedRef 1) 3) 1"
    by (simp add: exampleSwap_def)
  from consumer_before_producer_fails[OF a b c, of "[]"] a b c show ?thesis by simp
qed

end
